theory Spec2Isabelle
  imports Complex_Main
begin

section \<open>Python values and exceptions\<close>

text \<open>
  The development embeds \<^verbatim>\<open>exercises/streaming_spread/time_weight.py\<close> (classes
  \<^verbatim>\<open>QuotePair\<close> and \<^verbatim>\<open>TimeCache\<close>) and the loop of
  \<^verbatim>\<open>test_add_and_log\<close> from \<^verbatim>\<open>test_time_weight.py\<close>.

  Numbers: a Python \<^verbatim>\<open>float\<close> is modelled by an exact rational (\<^typ>\<open>rat\<close>).
  Binary rounding of IEEE doubles, infinities and NaN are outside the model; every
  numeric statement below is a statement of exact arithmetic.

  Arguments whose type the code tests with \<^verbatim>\<open>isinstance\<close> are values of
  \<open>pyval\<close>; an exception is a value of \<open>error\<close>. A method returns the object as
  it is when the call ends (also when it ends by an exception) together with the
  exception or the returned value.
\<close>

datatype pyval = PyFloat rat | PyInt int | PyStr string | PyNone

datatype error =
  InputError | QuoteError | IndexError | ZeroDivisionError | UnboundLocalError | TypeError

text \<open>\<^verbatim>\<open>isinstance(x, float)\<close>.\<close>

fun isinstance_float :: "pyval \<Rightarrow> bool" where
  "isinstance_float (PyFloat x) = True"
| "isinstance_float v = False"

text \<open>\<^verbatim>\<open>if x and y\<close> on a price that is \<^verbatim>\<open>None\<close> or a float: \<^verbatim>\<open>None\<close> and
  \<^verbatim>\<open>0.0\<close> are false.\<close>

fun truthy :: "rat option \<Rightarrow> bool" where
  "truthy None = False"
| "truthy (Some x) = (x \<noteq> 0)"

section \<open>QuotePair\<close>

record QuotePair =
  current_ts :: "rat option"
  ask :: "rat option"
  bid :: "rat option"

definition QuotePair_init :: QuotePair where
  "QuotePair_init = \<lparr>current_ts = None, ask = None, bid = None\<rparr>"

text \<open>\<^verbatim>\<open>_update_quote\<close>: two independent \<^verbatim>\<open>if\<close> statements, run one after the other.\<close>

definition update_quote :: "QuotePair \<Rightarrow> pyval \<Rightarrow> rat \<Rightarrow> QuotePair \<times> (error + unit)" where
  "update_quote q side price =
    (case (if side = PyStr '':a''
           then (if ask q \<noteq> None then (q, Inl QuoteError)
                 else (q\<lparr>ask := Some price\<rparr>, Inr ()))
           else (q, Inr ())) of
       (q1, Inl e) \<Rightarrow> (q1, Inl e)
     | (q1, Inr u) \<Rightarrow>
         (if side = PyStr '':b''
          then (if bid q1 \<noteq> None then (q1, Inl QuoteError)
                else (q1\<lparr>bid := Some price\<rparr>, Inr ()))
          else (q1, Inr ())))"

definition clear_prices :: "QuotePair \<Rightarrow> QuotePair" where
  "clear_prices q = q\<lparr>ask := None, bid := None\<rparr>"

text \<open>The tail of \<^verbatim>\<open>add\<close>, from \<^verbatim>\<open>self._update_quote(side, price)\<close> on.\<close>

definition add_update :: "QuotePair \<Rightarrow> rat \<Rightarrow> pyval \<Rightarrow> rat \<Rightarrow> QuotePair \<times> (error + rat option)" where
  "add_update q ts side price =
    (case update_quote q side price of
       (q1, Inl e) \<Rightarrow> (q1, Inl e)
     | (q1, Inr u) \<Rightarrow>
         (let q2 = q1\<lparr>current_ts := Some ts\<rparr> in
          if truthy (ask q2) \<and> truthy (bid q2)
          then (case (ask q2, bid q2) of
                  (Some a, Some b) \<Rightarrow> (q2, Inr (Some (a - b)))
                | _ \<Rightarrow> (q2, Inr None))
          else (q2, Inr None)))"

text \<open>The body of \<^verbatim>\<open>add\<close> once the three type checks have passed.\<close>

definition add_checked :: "QuotePair \<Rightarrow> rat \<Rightarrow> pyval \<Rightarrow> rat \<Rightarrow> QuotePair \<times> (error + rat option)" where
  "add_checked q ts side price =
    (let (q1, new_time) =
           (case current_ts q of
              None \<Rightarrow> (q\<lparr>current_ts := Some ts\<rparr>, 0)
            | Some c \<Rightarrow> (q, ts - c))
     in if new_time \<noteq> 0
        then (if ask q1 = None \<or> bid q1 = None then (q1, Inl QuoteError)
              else add_update (clear_prices q1) ts side price)
        else (if truthy (ask q1) \<and> truthy (bid q1) then (q1, Inl QuoteError)
              else add_update q1 ts side price))"

definition QuotePair_add ::
  "QuotePair \<Rightarrow> pyval \<Rightarrow> pyval \<Rightarrow> pyval \<Rightarrow> QuotePair \<times> (error + rat option)" where
  "QuotePair_add q ts side price =
    (if \<not> isinstance_float ts then (q, Inl InputError)
     else if side \<noteq> PyStr '':a'' \<and> side \<noteq> PyStr '':b'' then (q, Inl InputError)
     else if \<not> isinstance_float price then (q, Inl InputError)
     else (case (ts, price) of
             (PyFloat t, PyFloat p) \<Rightarrow> add_checked q t side p
           | _ \<Rightarrow> (q, Inl InputError)))"

section \<open>Numbers and output format\<close>

text \<open>\<^verbatim>\<open>round(x, n)\<close> (the tests import \<^verbatim>\<open>cStringIO\<close>, so this is Python 2, where a tie
  is rounded away from zero); \<^verbatim>\<open>math.floor\<close> returns a float; \<^verbatim>\<open>int(x)\<close> truncates
  towards zero.\<close>

definition py_round :: "rat \<Rightarrow> nat \<Rightarrow> rat" where
  "py_round x n =
    (if 0 \<le> x then of_int \<lfloor>x * 10 ^ n + 1 / 2\<rfloor> / 10 ^ n
     else - (of_int \<lfloor>- x * 10 ^ n + 1 / 2\<rfloor> / 10 ^ n))"

definition py_floor :: "rat \<Rightarrow> rat" where
  "py_floor x = of_int \<lfloor>x\<rfloor>"

definition py_int :: "rat \<Rightarrow> int" where
  "py_int x = (if 0 \<le> x then \<lfloor>x\<rfloor> else \<lceil>x\<rceil>)"

definition FLOAT_DIGITS :: nat where
  "FLOAT_DIGITS = 8"

definition float_multiplier :: rat where
  "float_multiplier = 1"

definition sec_to_microsec :: "rat \<Rightarrow> rat" where
  "sec_to_microsec x = x * 1000000"

text \<open>\<^verbatim>\<open>OUTPUT_FORMAT = "%i,%.8f\n"\<close>: a decimal integer, a comma, and the number with
  \<^verbatim>\<open>FLOAT_DIGITS\<close> digits after the point (the exact value, a tie rounded to even).\<close>

fun show_nat :: "nat \<Rightarrow> string" where
  "show_nat n =
    (if n < 10 then [''0123456789'' ! n]
     else show_nat (n div 10) @ [''0123456789'' ! (n mod 10)])"

declare show_nat.simps [simp del]

definition show_int :: "int \<Rightarrow> string" where
  "show_int i = (if i < 0 then ''-'' @ show_nat (nat (- i)) else show_nat (nat i))"

definition round_half_even :: "rat \<Rightarrow> int" where
  "round_half_even r =
    (let f = \<lfloor>r\<rfloor>; d = r - of_int f
     in if d < 1 / 2 then f
        else if 1 / 2 < d then f + 1
        else if even f then f else f + 1)"

definition show_fixed :: "nat \<Rightarrow> rat \<Rightarrow> string" where
  "show_fixed k x =
    (let n = nat (round_half_even (\<bar>x\<bar> * 10 ^ k));
         frac = show_nat (n mod 10 ^ k)
     in (if x < 0 then ''-'' else []) @ show_nat (n div 10 ^ k) @ ''.''
        @ replicate (k - length frac) (CHR ''0'') @ frac)"

definition OUTPUT_FORMAT :: "int \<Rightarrow> rat \<Rightarrow> string" where
  "OUTPUT_FORMAT i x = show_int i @ '','' @ show_fixed FLOAT_DIGITS x @ [CHR 0x0A]"

section \<open>TimeCache\<close>

record TimeCache =
  archive :: "(rat \<times> rat option) list"
  last_spread :: "rat option"
  tmp_cache :: "(rat \<times> rat) list"

definition TimeCache_init :: TimeCache where
  "TimeCache_init = \<lparr>archive = [], last_spread = None, tmp_cache = []\<rparr>"

text \<open>The \<^verbatim>\<open>while i < len(self.tmp_cache)\<close> loop of \<^verbatim>\<open>_get_spreads_and_time_weights\<close>;
  it returns the lists and the final \<^verbatim>\<open>i\<close>. The loop starts at \<^verbatim>\<open>i = 1\<close>, so both
  reads are in range.\<close>

function fill_main ::
  "(rat \<times> rat) list \<Rightarrow> nat \<Rightarrow> rat list \<Rightarrow> rat list \<Rightarrow> rat list \<times> rat list \<times> nat" where
  "fill_main tmp i spreads time_weights =
    (if i < length tmp
     then fill_main tmp (i + 1)
            (spreads @ [snd (tmp ! (i - 1))])
            (time_weights @ [fst (tmp ! i) - fst (tmp ! (i - 1))])
     else (spreads, time_weights, i))"
  by pat_completeness auto
termination
  by (relation "measure (\<lambda>(tmp, i, spreads, time_weights). length tmp - i)") auto

declare fill_main.simps [simp del]

text \<open>\<^verbatim>\<open>self.archive[-1][0]\<close> (also \<^verbatim>\<open>_get_last_archive_ts\<close>).\<close>

definition get_last_archive_ts :: "TimeCache \<Rightarrow> error + rat" where
  "get_last_archive_ts st =
    (case archive st of [] \<Rightarrow> Inl IndexError | a # as \<Rightarrow> Inr (fst (last (archive st))))"

definition get_spreads_and_time_weights :: "TimeCache \<Rightarrow> error + (rat list \<times> rat list)" where
  "get_spreads_and_time_weights st =
    (case (case last_spread st of
             None \<Rightarrow> Inr ([], [])
           | Some first_spread \<Rightarrow>
               (case tmp_cache st of
                  [] \<Rightarrow> Inl IndexError
                | r # rs \<Rightarrow>
                    (case get_last_archive_ts st of
                       Inl e \<Rightarrow> Inl e
                     | Inr a \<Rightarrow> Inr ([first_spread], [fst r - a])))) of
       Inl e \<Rightarrow> Inl e
     | Inr (spreads0, time_weights0) \<Rightarrow>
         (case fill_main (tmp_cache st) 1 spreads0 time_weights0 of
            (spreads, time_weights, i) \<Rightarrow>
              if length (tmp_cache st) \<le> i - 1 then Inl IndexError
              else (case get_last_archive_ts st of
                      Inl e \<Rightarrow> Inl e
                    | Inr a \<Rightarrow>
                        Inr (spreads @ [snd (tmp_cache st ! (i - 1))],
                             time_weights @ [a + float_multiplier - fst (tmp_cache st ! (i - 1))]))))"

text \<open>The \<^verbatim>\<open>for\<close> loop of \<^verbatim>\<open>_weight_time\<close>: \<^verbatim>\<open>time_weights[i]\<close> is read for every index of
  \<^verbatim>\<open>spreads\<close>.\<close>

fun weight_sums :: "rat list \<Rightarrow> rat list \<Rightarrow> rat \<Rightarrow> rat \<Rightarrow> error + (rat \<times> rat)" where
  "weight_sums [] ws twa time_sum = Inr (twa, time_sum)"
| "weight_sums (s # ss) [] twa time_sum = Inl IndexError"
| "weight_sums (s # ss) (w # ws) twa time_sum = weight_sums ss ws (twa + s * w) (time_sum + w)"

definition weight_time :: "rat list \<Rightarrow> rat list \<Rightarrow> error + rat" where
  "weight_time spreads time_weights =
    (case weight_sums spreads time_weights 0 0 of
       Inl e \<Rightarrow> Inl e
     | Inr (twa, time_sum) \<Rightarrow>
         if time_sum = 0 then Inl ZeroDivisionError
         else Inr (py_round (twa / time_sum) 8))"

text \<open>\<^verbatim>\<open>_cold_cache\<close> returns 1, 0, or (falling off the end) \<^verbatim>\<open>None\<close>.\<close>

definition cold_cache :: "TimeCache \<Rightarrow> rat \<Rightarrow> rat \<Rightarrow> TimeCache \<times> int option" where
  "cold_cache st ts spread =
    (if length (tmp_cache st) = 0
     then (let st1 = st\<lparr>tmp_cache := tmp_cache st @ [(ts, spread)]\<rparr>
           in if length (archive st1) = 0
              then (st1\<lparr>archive := [(py_floor ts, None)]\<rparr>, Some 1)
              else (st1, None))
     else (st, Some 0))"

definition update_archive :: "TimeCache \<Rightarrow> rat \<Rightarrow> rat \<Rightarrow> TimeCache \<times> (error + unit)" where
  "update_archive st ts spread =
    (case get_spreads_and_time_weights st of
       Inl e \<Rightarrow> (st, Inl e)
     | Inr (spreads, time_weights) \<Rightarrow>
         (case weight_time spreads time_weights of
            Inl e \<Rightarrow> (st, Inl e)
          | Inr twa \<Rightarrow>
              (let archive_floor = py_floor ts;
                   st1 = st\<lparr>archive := archive st @ [(archive_floor, Some twa)]\<rparr>
               in case tmp_cache st1 of
                    [] \<Rightarrow> (st1, Inl IndexError)
                  | r # rs \<Rightarrow>
                      (st1\<lparr>last_spread := Some (snd (last (tmp_cache st1))),
                           tmp_cache := [(ts, spread)]\<rparr>, Inr ()))))"

text \<open>The body of \<^verbatim>\<open>TimeCache.add\<close> after the two type checks. The returned value is
  \<^verbatim>\<open>None\<close> (cold start), 1 (a second was promoted) or 0.\<close>

definition add_floats :: "TimeCache \<Rightarrow> rat \<Rightarrow> rat \<Rightarrow> TimeCache \<times> (error + int option)" where
  "add_floats st ts spread =
    (case cold_cache st ts spread of
       (st1, r) \<Rightarrow>
         if r = Some 1 then (st1, Inr None)
         else (case get_last_archive_ts st1 of
                 Inl e \<Rightarrow> (st1, Inl e)
               | Inr a \<Rightarrow>
                   (let duration = ts - a
                    in if 1 < duration
                       then (case update_archive st1 ts spread of
                               (st2, Inl e) \<Rightarrow> (st2, Inl e)
                             | (st2, Inr u) \<Rightarrow> (st2, Inr (Some 1)))
                       else (st1\<lparr>tmp_cache := tmp_cache st1 @ [(ts, spread)]\<rparr>, Inr (Some 0)))))"

definition TimeCache_add :: "TimeCache \<Rightarrow> pyval \<Rightarrow> pyval \<Rightarrow> TimeCache \<times> (error + int option)" where
  "TimeCache_add st ts spread =
    (if \<not> isinstance_float ts then (st, Inl InputError)
     else if \<not> isinstance_float spread then (st, Inl InputError)
     else (case (ts, spread) of
             (PyFloat t, PyFloat s) \<Rightarrow> add_floats st t s
           | _ \<Rightarrow> (st, Inl InputError)))"

text \<open>The \<^verbatim>\<open>while last_logged_ts < this_ts and price is not None\<close> loop of \<^verbatim>\<open>log\<close>; \<open>out\<close>
  collects the strings written to \<^verbatim>\<open>sys.stdout\<close>.\<close>

function log_gap :: "rat \<Rightarrow> rat \<Rightarrow> rat option \<Rightarrow> string list \<Rightarrow> rat \<times> string list" where
  "log_gap last_logged_ts this_ts price out =
    (case price of
       None \<Rightarrow> (last_logged_ts, out)
     | Some p \<Rightarrow>
         if last_logged_ts < this_ts
         then log_gap (last_logged_ts + 1) this_ts price
                (out @ [OUTPUT_FORMAT (py_int (sec_to_microsec last_logged_ts)) p])
         else (last_logged_ts, out))"
  by pat_completeness auto
termination
proof (relation "measure (\<lambda>(last_logged_ts, this_ts, price, out). nat \<lceil>this_ts - last_logged_ts\<rceil>)")
  show "wf (measure (\<lambda>(last_logged_ts, this_ts, price, out). nat \<lceil>this_ts - last_logged_ts\<rceil>))"
    by simp
next
  fix last_logged_ts this_ts :: rat and price :: "rat option" and out :: "string list" and p :: rat
  assume "last_logged_ts < this_ts"
  then have "0 < \<lceil>this_ts - last_logged_ts\<rceil>"
    by simp
  moreover have "this_ts - (last_logged_ts + 1) = (this_ts - last_logged_ts) - 1"
    by simp
  then have "\<lceil>this_ts - (last_logged_ts + 1)\<rceil> = \<lceil>this_ts - last_logged_ts\<rceil> - 1"
    by (simp only: ceiling_diff_one)
  ultimately show "((last_logged_ts + 1, this_ts, price,
                      out @ [OUTPUT_FORMAT (py_int (sec_to_microsec last_logged_ts)) p]),
                     (last_logged_ts, this_ts, price, out))
                   \<in> measure (\<lambda>(last_logged_ts, this_ts, price, out). nat \<lceil>this_ts - last_logged_ts\<rceil>)"
    by simp
qed

declare log_gap.simps [simp del]

text \<open>The \<^verbatim>\<open>for i, data in enumerate(self.archive)\<close> loop of \<^verbatim>\<open>log\<close> from \<^verbatim>\<open>i = 1\<close> on:
  \<open>prev\<close> is \<^verbatim>\<open>self.archive[i-1]\<close>, the head of the list is \<^verbatim>\<open>self.archive[i]\<close>.\<close>

fun log_entries ::
  "rat \<times> rat option \<Rightarrow> (rat \<times> rat option) list \<Rightarrow> rat \<Rightarrow> string list \<Rightarrow> rat \<times> string list" where
  "log_entries prev [] last_logged_ts out = (last_logged_ts, out)"
| "log_entries prev (e # es) last_logged_ts out =
    (case log_gap last_logged_ts (fst e) (snd prev) out of
       (last_logged_ts1, out1) \<Rightarrow> log_entries e es last_logged_ts1 out1)"

text \<open>\<^verbatim>\<open>log\<close> returns the object, what was written, and the exception if any.
  With an empty archive \<^verbatim>\<open>self.archive[0]\<close> raises; with a single entry the loop body only
  runs \<^verbatim>\<open>continue\<close>, so \<^verbatim>\<open>this_ts\<close> is unbound at the final write; formatting
  \<^verbatim>\<open>None\<close> with \<^verbatim>\<open>%.8f\<close> raises \<^verbatim>\<open>TypeError\<close>.\<close>

definition TimeCache_log :: "TimeCache \<Rightarrow> TimeCache \<times> string list \<times> (error + unit)" where
  "TimeCache_log st =
    (case archive st of
       [] \<Rightarrow> (st, [], Inl IndexError)
     | first # rest \<Rightarrow>
         (case log_entries first rest (fst first + 1) [] of
            (last_logged_ts, out) \<Rightarrow>
              (case rest of
                 [] \<Rightarrow> (st, out, Inl UnboundLocalError)
               | e # es \<Rightarrow>
                   (case last rest of
                      (this_ts, None) \<Rightarrow> (st, out, Inl TypeError)
                    | (this_ts, Some avg) \<Rightarrow>
                        (st\<lparr>archive := [last (archive st)]\<rparr>,
                         out @ [OUTPUT_FORMAT (py_int (sec_to_microsec this_ts)) avg],
                         Inr ())))))"

section \<open>The loop of \<^verbatim>\<open>test_add_and_log\<close>\<close>

text \<open>Each record goes to \<^verbatim>\<open>qc.add\<close>; a returned spread goes to \<^verbatim>\<open>tc.add\<close>, whose result
  the test ignores. An exception ends the loop.\<close>

fun test_add_and_log_loop ::
  "QuotePair \<times> TimeCache \<Rightarrow> (rat \<times> string \<times> rat) list \<Rightarrow> (QuotePair \<times> TimeCache) \<times> (error + unit)" where
  "test_add_and_log_loop (qc, tc) [] = ((qc, tc), Inr ())"
| "test_add_and_log_loop (qc, tc) ((ts, side, price) # data) =
    (let ts1 = ts * float_multiplier; price1 = price * float_multiplier
     in case QuotePair_add qc (PyFloat ts1) (PyStr side) (PyFloat price1) of
          (qc1, Inl e) \<Rightarrow> ((qc1, tc), Inl e)
        | (qc1, Inr None) \<Rightarrow> test_add_and_log_loop (qc1, tc) data
        | (qc1, Inr (Some spread)) \<Rightarrow>
            (case TimeCache_add tc (PyFloat ts1) (PyFloat spread) of
               (tc1, Inl e) \<Rightarrow> ((qc1, tc1), Inl e)
             | (tc1, Inr r) \<Rightarrow> test_add_and_log_loop (qc1, tc1) data))"

definition test_data :: "(rat \<times> string \<times> rat) list" where
  "test_data =
    [(800.2, '':b'', 1.50), (800.2, '':a'', 1.60),
     (800.6, '':b'', 1.75), (800.6, '':a'', 1.95),
     (801.5, '':b'', 1.80), (801.5, '':a'', 1.90),
     (803.3, '':b'', 1.13), (803.3, '':a'', 1.28),
     (804.2, '':b'', 1.01), (804.2, '':a'', 1.11)]"

section \<open>Sequences of calls on one TimeCache\<close>

text \<open>A caller holds one \<^verbatim>\<open>TimeCache\<close> and calls \<^verbatim>\<open>add\<close> and \<^verbatim>\<open>log\<close> on it in any
  order, with any arguments; the object survives a call that raises. \<open>run\<close> gives the
  object after a sequence of calls from \<^verbatim>\<open>TimeCache()\<close>, together with the anchor:
  the last entry that the archive held when the most recent \<^verbatim>\<open>log()\<close> that returned was
  called, or \<open>None\<close> while no \<^verbatim>\<open>log()\<close> has returned. (\<^verbatim>\<open>log()\<close> returns only on an
  archive of two entries or more, so that last entry exists.)\<close>

datatype call = Add pyval pyval | Log

fun step ::
  "TimeCache \<times> (rat \<times> rat option) option \<Rightarrow> call \<Rightarrow> TimeCache \<times> (rat \<times> rat option) option" where
  "step (st, anchor) (Add ts spread) = (fst (TimeCache_add st ts spread), anchor)"
| "step (st, anchor) Log =
    (case TimeCache_log st of
       (st1, out, Inr u) \<Rightarrow> (st1, Some (last (archive st)))
     | (st1, out, Inl e) \<Rightarrow> (st1, anchor))"

definition run :: "call list \<Rightarrow> TimeCache \<times> (rat \<times> rat option) option" where
  "run calls = foldl step (TimeCache_init, None) calls"

text \<open>The invariant of \<open>run\<close>: every entry after the first has an average; the first has
  none until a \<^verbatim>\<open>log()\<close> has returned, and is the anchor, with an average, from then on.\<close>

definition archive_inv :: "TimeCache \<times> (rat \<times> rat option) option \<Rightarrow> bool" where
  "archive_inv p =
    (case p of (st, anchor) \<Rightarrow>
       (\<forall>e \<in> set (tl (archive st)). snd e \<noteq> None) \<and>
       (case anchor of
          None \<Rightarrow> archive st \<noteq> [] \<longrightarrow> snd (hd (archive st)) = None
        | Some a \<Rightarrow> archive st \<noteq> [] \<and> hd (archive st) = a \<and> snd a \<noteq> None))"

section \<open>Evaluation lemmas\<close>

lemma floor_rat_numeral_div [simp]:
  "\<lfloor>numeral a / numeral b :: rat\<rfloor> = numeral a div numeral b"
  using floor_divide_of_int_eq [of "numeral a" "numeral b", where ?'a = rat] by simp

lemmas QuotePair_defs =
  QuotePair_add_def add_checked_def add_update_def update_quote_def clear_prices_def

lemmas TimeCache_add_defs =
  TimeCache_add_def add_floats_def cold_cache_def get_last_archive_ts_def float_multiplier_def
  update_archive_def get_spreads_and_time_weights_def fill_main.simps
  weight_time_def py_round_def py_floor_def Let_def

lemmas TimeCache_log_defs =
  TimeCache_log_def log_gap.simps py_int_def sec_to_microsec_def OUTPUT_FORMAT_def
  show_int_def show_fixed_def round_half_even_def FLOAT_DIGITS_def show_nat.simps

section \<open>QuotePair: type checks and sequencing\<close>

text \<open>
  \<^bold>\<open>C8.\<close> \<^verbatim>\<open>QuotePair.add\<close> raises \<^verbatim>\<open>InputError\<close> when the timestamp or the price is not
  a float or the side is neither \<^verbatim>\<open>":a"\<close> nor \<^verbatim>\<open>":b"\<close>, and \<^verbatim>\<open>TimeCache.add\<close> raises
  \<^verbatim>\<open>InputError\<close> when the timestamp or the spread is not a float. In each case the
  object returned with the exception is the object the call received: nothing was
  changed before the check.
\<close>

theorem type_checks_precede_state_change:
  "(\<not> isinstance_float ts \<or> \<not> isinstance_float price
      \<or> (side \<noteq> PyStr '':a'' \<and> side \<noteq> PyStr '':b'')
     \<longrightarrow> QuotePair_add q ts side price = (q, Inl InputError))
   \<and> (\<not> isinstance_float ts \<or> \<not> isinstance_float spread
     \<longrightarrow> TimeCache_add st ts spread = (st, Inl InputError))"
  by (simp add: QuotePair_add_def TimeCache_add_def)

theorem type_checks_precede_state_change_witness:
  "\<not> isinstance_float (PyStr ''1469404799897461'')
   \<and> QuotePair_add QuotePair_init (PyStr ''1469404799897461'') (PyStr '':b'') (PyFloat 42)
       = (QuotePair_init, Inl InputError)
   \<and> TimeCache_add TimeCache_init (PyStr ''1469404799897461'') (PyFloat 10)
       = (TimeCache_init, Inl InputError)"
  using type_checks_precede_state_change
          [of "PyStr ''1469404799897461''" "PyFloat 42" "PyStr '':b''" QuotePair_init
              "PyFloat 10" TimeCache_init]
  by simp

text \<open>
  \<^bold>\<open>C7.\<close> When exactly one of bid and ask is set for the current timestamp, a call of
  \<^verbatim>\<open>add\<close> (with a float timestamp, a float price and a recognised side) whose
  timestamp differs from \<^verbatim>\<open>current_ts\<close> raises \<^verbatim>\<open>QuoteError\<close>, and the object is
  unchanged: bid, ask and \<^verbatim>\<open>current_ts\<close> are as before.
\<close>

theorem open_pair_new_timestamp_fails:
  assumes "current_ts q = Some c" and "ts \<noteq> c"
    and "(ask q = None) \<noteq> (bid q = None)"
    and "side = PyStr '':a'' \<or> side = PyStr '':b''"
  shows "QuotePair_add q (PyFloat ts) side (PyFloat price) = (q, Inl QuoteError)"
  using assms by (auto simp: QuotePair_add_def add_checked_def)

theorem open_pair_new_timestamp_fails_witness:
  "QuotePair_add \<lparr>current_ts = Some 1469404799.897461, ask = None, bid = Some 42\<rparr>
     (PyFloat 1469404799.898461) (PyStr '':a'') (PyFloat 43)
   = (\<lparr>current_ts = Some 1469404799.897461, ask = None, bid = Some 42\<rparr>, Inl QuoteError)"
proof -
  let ?q = "\<lparr>current_ts = Some 1469404799.897461, ask = None, bid = Some 42\<rparr>"
  have h1: "current_ts ?q = Some 1469404799.897461" by simp
  have h2: "(1469404799.898461 :: rat) \<noteq> 1469404799.897461" by simp
  have h3: "(ask ?q = None) \<noteq> (bid ?q = None)" by simp
  have h4: "PyStr '':a'' = PyStr '':a'' \<or> PyStr '':a'' = PyStr '':b''" by simp
  show ?thesis
    by (rule open_pair_new_timestamp_fails [OF h1 h2 h3 h4])
qed

text \<open>
  \<^bold>\<open>C10.\<close> \<^verbatim>\<open>QuotePair.add\<close> does not compare timestamps for order. When the current
  pair is complete (bid and ask both set), a call with any timestamp different from
  \<^verbatim>\<open>current_ts\<close>, smaller ones included, is accepted: both prices are cleared, the
  price of the given side is stored, \<^verbatim>\<open>current_ts\<close> becomes the new timestamp, and
  no spread is returned.
\<close>

theorem complete_pair_accepts_any_new_timestamp:
  assumes "current_ts q = Some c" and "ts \<noteq> c"
    and "ask q \<noteq> None" and "bid q \<noteq> None"
    and "side = PyStr '':a'' \<or> side = PyStr '':b''"
  shows "QuotePair_add q (PyFloat ts) side (PyFloat price) =
           (q\<lparr>current_ts := Some ts,
              ask := (if side = PyStr '':a'' then Some price else None),
              bid := (if side = PyStr '':b'' then Some price else None)\<rparr>, Inr None)"
  using assms by (auto simp: QuotePair_defs)

theorem complete_pair_accepts_any_new_timestamp_witness:
  "(3 :: rat) < 5 \<and>
   QuotePair_add \<lparr>current_ts = Some 5, ask = Some 43, bid = Some 42\<rparr>
     (PyFloat 3) (PyStr '':b'') (PyFloat 41)
   = (\<lparr>current_ts = Some 3, ask = None, bid = Some 41\<rparr>, Inr None)"
proof -
  let ?q = "\<lparr>current_ts = Some 5, ask = Some 43, bid = Some 42\<rparr>"
  have h1: "current_ts ?q = Some 5" by simp
  have h2: "(3 :: rat) \<noteq> 5" by simp
  have h3: "ask ?q \<noteq> None" by simp
  have h4: "bid ?q \<noteq> None" by simp
  have h5: "PyStr '':b'' = PyStr '':a'' \<or> PyStr '':b'' = PyStr '':b''" by simp
  show ?thesis
    using complete_pair_accepts_any_new_timestamp [OF h1 h2 h3 h4 h5, of 41] by simp
qed

text \<open>
  Two facts around C4. With both prices different from zero, the second call of a
  bid/ask pair at one timestamp returns \<open>ask - bid\<close>; and once both sides are set
  (whatever their values), every further call at that timestamp raises \<^verbatim>\<open>QuoteError\<close>
  and leaves the object as it was.
\<close>

lemma pair_spread_nonzero_prices:
  assumes "current_ts q = Some ts" and "pa \<noteq> 0" and "pb \<noteq> 0"
  shows "ask q = None \<Longrightarrow> bid q = Some pb \<Longrightarrow>
           QuotePair_add q (PyFloat ts) (PyStr '':a'') (PyFloat pa)
             = (q\<lparr>ask := Some pa, current_ts := Some ts\<rparr>, Inr (Some (pa - pb)))"
    and "bid q = None \<Longrightarrow> ask q = Some pa \<Longrightarrow>
           QuotePair_add q (PyFloat ts) (PyStr '':b'') (PyFloat pb)
             = (q\<lparr>bid := Some pb, current_ts := Some ts\<rparr>, Inr (Some (pa - pb)))"
  using assms by (auto simp: QuotePair_defs)

lemma settled_pair_rejects_same_timestamp:
  assumes "current_ts q = Some ts" and "ask q \<noteq> None" and "bid q \<noteq> None"
    and "side = PyStr '':a'' \<or> side = PyStr '':b''"
  shows "QuotePair_add q (PyFloat ts) side (PyFloat price) = (q, Inl QuoteError)"
  using assms by (auto simp: QuotePair_defs)

text \<open>
  \<^bold>\<open>C4.\<close> The claim: of two consecutive calls at one timestamp, one bid and one ask, the
  second returns \<open>ask - bid\<close>. The test \<^verbatim>\<open>if self.ask and self.bid\<close> takes a price of
  \<^verbatim>\<open>0.0\<close> for a missing one (the other tests of the same method are
  \<^verbatim>\<open>is None\<close>): after a bid of 0.0 and an ask of 1.60 at timestamp 800.2, both
  sides are stored and the second call returns \<^verbatim>\<open>None\<close> instead of 1.60.
\<close>

theorem zero_price_pair_returns_no_spread:
  "QuotePair_add QuotePair_init (PyFloat 800.2) (PyStr '':b'') (PyFloat 0)
     = (\<lparr>current_ts = Some 800.2, ask = None, bid = Some 0\<rparr>, Inr None)
   \<and> QuotePair_add \<lparr>current_ts = Some 800.2, ask = None, bid = Some 0\<rparr>
         (PyFloat 800.2) (PyStr '':a'') (PyFloat 1.60)
     = (\<lparr>current_ts = Some 800.2, ask = Some 1.60, bid = Some 0\<rparr>, Inr None)"
  by (simp add: QuotePair_init_def QuotePair_defs)

section \<open>TimeCache: promotion and the weighted average\<close>

text \<open>Concrete calls of \<^verbatim>\<open>TimeCache.add\<close> on the first records of \<^verbatim>\<open>test_add_and_log\<close>.\<close>

lemma add_800_2:
  "TimeCache_add TimeCache_init (PyFloat 800.2) (PyFloat 0.10) =
     (\<lparr>archive = [(800, None)], last_spread = None, tmp_cache = [(800.2, 0.10)]\<rparr>, Inr None)"
  by (simp add: TimeCache_init_def TimeCache_add_defs split del: if_split)

lemma add_800_6:
  "TimeCache_add
     \<lparr>archive = [(800, None)], last_spread = None, tmp_cache = [(800.2, 0.10)]\<rparr>
     (PyFloat 800.6) (PyFloat 0.20) =
     (\<lparr>archive = [(800, None)], last_spread = None,
       tmp_cache = [(800.2, 0.10), (800.6, 0.20)]\<rparr>, Inr (Some 0))"
  by (simp add: TimeCache_add_defs split del: if_split)

lemma add_801_5:
  "TimeCache_add
     \<lparr>archive = [(800, None)], last_spread = None,
       tmp_cache = [(800.2, 0.10), (800.6, 0.20)]\<rparr>
     (PyFloat 801.5) (PyFloat 0.10) =
     (\<lparr>archive = [(800, None), (801, Some 0.15)], last_spread = Some 0.20,
       tmp_cache = [(801.5, 0.10)]\<rparr>, Inr (Some 1))"
  by (simp add: TimeCache_add_defs split del: if_split)

text \<open>
  \<^bold>\<open>C9.\<close> On a cache that is not cold (archive and \<^verbatim>\<open>tmp_cache\<close> both non-empty; on
  a cache reached by calls each is non-empty when the other is), a call
  \<^verbatim>\<open>add(ts, spread)\<close> with \<^verbatim>\<open>ts - last_archived_second\<close> at most 1.0, in particular
  exactly 1.0, promotes nothing: the record is appended to \<^verbatim>\<open>tmp_cache\<close>, the archive
  is unchanged and the call returns 0. Promotion needs a duration strictly above one
  second.
\<close>

theorem boundary_second_not_promoted:
  assumes "archive st \<noteq> []" and "tmp_cache st \<noteq> []"
    and "ts - fst (last (archive st)) \<le> 1"
  shows "TimeCache_add st (PyFloat ts) (PyFloat spread) =
           (st\<lparr>tmp_cache := tmp_cache st @ [(ts, spread)]\<rparr>, Inr (Some 0))"
  using assms
  by (auto simp: TimeCache_add_def add_floats_def cold_cache_def get_last_archive_ts_def
           split: list.splits)

theorem boundary_second_not_promoted_witness:
  "(801 :: rat) - 800 = 1 \<and>
   TimeCache_add
     \<lparr>archive = [(800, None)], last_spread = None, tmp_cache = [(800.2, 0.10)]\<rparr>
     (PyFloat 801) (PyFloat 0.20) =
     (\<lparr>archive = [(800, None)], last_spread = None,
       tmp_cache = [(800.2, 0.10), (801, 0.20)]\<rparr>, Inr (Some 0))"
proof -
  let ?st = "\<lparr>archive = [(800, None)], last_spread = None, tmp_cache = [(800.2, 0.10)]\<rparr>"
  have h1: "archive ?st \<noteq> []" by simp
  have h2: "tmp_cache ?st \<noteq> []" by simp
  have h3: "801 - fst (last (archive ?st)) \<le> 1" by simp
  show ?thesis
    using boundary_second_not_promoted [OF h1 h2 h3, of "0.20"] by simp
qed




text \<open>The \<^verbatim>\<open>while\<close> loop ends with \<^verbatim>\<open>i = len(tmp_cache)\<close>, and the durations it appends
  telescope.\<close>

lemma fill_main_result:
  "1 \<le> i \<Longrightarrow> i \<le> length tmp \<Longrightarrow> fill_main tmp i sp tw = (sp', tw', i') \<Longrightarrow>
     i' = length tmp \<and>
     sum_list tw' = sum_list tw + (fst (tmp ! (length tmp - 1)) - fst (tmp ! (i - 1)))"
proof (induction tmp i sp tw rule: fill_main.induct)
  case (1 tmp i spreads time_weights)
  show ?case
  proof (cases "i < length tmp")
    case True
    then have "fill_main tmp (i + 1) (spreads @ [snd (tmp ! (i - 1))])
                 (time_weights @ [fst (tmp ! i) - fst (tmp ! (i - 1))]) = (sp', tw', i')"
      using "1.prems"(3) by (subst (asm) fill_main.simps) simp
    with "1.IH" [OF True] True show ?thesis
      by simp
  next
    case False
    with "1.prems" have "i = length tmp" by simp
    moreover from False "1.prems"(3) have "tw' = time_weights" "i' = i"
      by (subst (asm) fill_main.simps, simp)+
    ultimately show ?thesis by simp
  qed
qed

text \<open>
  \<^bold>\<open>C6.\<close> As stated (every promoted window has durations that sum to 1.0) the claim
  fails on the cold-start window, whose leading interval is left out: for the first
  window of \<^verbatim>\<open>test_add_and_log\<close>, which \<^verbatim>\<open>add(801.5, 0.10)\<close> promotes, the durations are
  0.4 and 0.4 and sum to 0.8.
\<close>

theorem cold_window_durations_counterexample:
  "snd (TimeCache_add
         \<lparr>archive = [(800, None)], last_spread = None,
           tmp_cache = [(800.2, 0.10), (800.6, 0.20)]\<rparr>
         (PyFloat 801.5) (PyFloat 0.10)) = Inr (Some 1)
   \<and> get_spreads_and_time_weights
         \<lparr>archive = [(800, None)], last_spread = None,
           tmp_cache = [(800.2, 0.10), (800.6, 0.20)]\<rparr>
       = Inr ([0.10, 0.20], [0.4, 0.4])
   \<and> sum_list [0.4, 0.4 :: rat] = 0.8
   \<and> \<not> \<bar>sum_list [0.4, 0.4 :: rat] - 1\<bar> \<le> 1 / 10 ^ 8"
proof -
  have promoted:
    "snd (TimeCache_add
           \<lparr>archive = [(800, None)], last_spread = None,
             tmp_cache = [(800.2, 0.10), (800.6, 0.20)]\<rparr>
           (PyFloat 801.5) (PyFloat 0.10)) = Inr (Some 1)"
    by (simp only: add_801_5 snd_conv)
  have durations:
    "get_spreads_and_time_weights
       \<lparr>archive = [(800, None)], last_spread = None,
         tmp_cache = [(800.2, 0.10), (800.6, 0.20)]\<rparr>
     = Inr ([0.10, 0.20], [0.4, 0.4])"
    by (simp add: get_spreads_and_time_weights_def fill_main.simps
          get_last_archive_ts_def float_multiplier_def)
  have total: "sum_list [0.4, 0.4 :: rat] = 0.8"
    by simp
  have far: "\<not> \<bar>sum_list [0.4, 0.4 :: rat] - 1\<bar> \<le> 1 / 10 ^ 8"
    by simp
  show ?thesis
    by (rule conjI [OF promoted conjI [OF durations conjI [OF total far]]])
qed

text \<open>
  \<^bold>\<open>C6, amended.\<close> Whenever \<^verbatim>\<open>_get_spreads_and_time_weights\<close> returns, the durations sum
  to exactly 1 if \<^verbatim>\<open>last_spread\<close> is set (every window but the cold-start one), and to
  the time from the first record of \<^verbatim>\<open>tmp_cache\<close> to the end of the anchor's second if
  \<^verbatim>\<open>last_spread\<close> is unset.
\<close>

theorem window_durations_sum:
  assumes "get_spreads_and_time_weights st = Inr (spreads, time_weights)"
  shows "sum_list time_weights =
           (case last_spread st of
              Some s \<Rightarrow> 1
            | None \<Rightarrow> fst (last (archive st)) + 1 - fst (hd (tmp_cache st)))"
proof -
  from assms obtain r rs where tmp: "tmp_cache st = r # rs"
    by (cases "tmp_cache st")
       (auto simp: get_spreads_and_time_weights_def fill_main.simps
             split: option.splits sum.splits prod.splits if_splits list.splits)
  from assms obtain a as where arch: "archive st = a # as"
    by (cases "archive st")
       (auto simp: get_spreads_and_time_weights_def get_last_archive_ts_def
             split: option.splits sum.splits prod.splits if_splits list.splits)
  define sp0 where "sp0 = (case last_spread st of None \<Rightarrow> [] | Some s \<Rightarrow> [s])"
  define tw0 where "tw0 = (case last_spread st of None \<Rightarrow> []
                           | Some s \<Rightarrow> [fst r - fst (last (archive st))])"
  obtain sp' tw' i' where fm: "fill_main (tmp_cache st) 1 sp0 tw0 = (sp', tw', i')"
    by (cases "fill_main (tmp_cache st) 1 sp0 tw0") auto
  from fill_main_result [OF _ _ fm] tmp
  have i': "i' = length (tmp_cache st)"
    and s: "sum_list tw' =
              sum_list tw0 + (fst (tmp_cache st ! (length (tmp_cache st) - 1)) - fst r)"
    by simp_all
  from assms fm tmp arch i'
  have "time_weights =
          tw' @ [fst (last (archive st)) + 1
                 - fst (tmp_cache st ! (length (tmp_cache st) - 1))]"
    by (auto simp: get_spreads_and_time_weights_def get_last_archive_ts_def sp0_def tw0_def
          float_multiplier_def split: option.splits)
  with s tmp show ?thesis
    by (simp add: tw0_def split: option.splits)
qed

theorem window_durations_sum_witness:
  "get_spreads_and_time_weights
     \<lparr>archive = [(800, None), (801, Some 0.15)], last_spread = Some 0.20,
       tmp_cache = [(801.5, 0.10)]\<rparr> = Inr ([0.20, 0.10], [0.5, 0.5])
   \<and> sum_list [0.5, 0.5 :: rat] = 1"
proof -
  let ?st = "\<lparr>archive = [(800, None), (801, Some 0.15)], last_spread = Some 0.20,
               tmp_cache = [(801.5, 0.10)]\<rparr>"
  have h: "get_spreads_and_time_weights ?st = Inr ([0.20, 0.10], [0.5, 0.5])"
    by (simp add: get_spreads_and_time_weights_def fill_main.simps get_last_archive_ts_def
          float_multiplier_def)
  from window_durations_sum [OF h] h show ?thesis
    by simp
qed

section \<open>TimeCache: emission\<close>

lemma TimeCache_log_failed:
  "TimeCache_log st = (st1, out, Inl e) \<Longrightarrow> st1 = st"
  by (auto simp: TimeCache_log_def split: list.splits prod.splits option.splits)

lemma TimeCache_log_returned:
  "TimeCache_log st = (st1, out, Inr u) \<Longrightarrow>
     2 \<le> length (archive st) \<and> snd (last (archive st)) \<noteq> None \<and>
     archive st1 = [last (archive st)]"
  by (auto simp: TimeCache_log_def split: list.splits prod.splits option.splits)

lemma log_801:
  "TimeCache_log
     \<lparr>archive = [(800, None), (801, Some 0.15)], last_spread = Some 0.20,
       tmp_cache = [(801.5, 0.10)]\<rparr> =
     (\<lparr>archive = [(801, Some 0.15)], last_spread = Some 0.20, tmp_cache = [(801.5, 0.10)]\<rparr>,
      [''801000000,0.15000000'' @ [CHR 0x0A]], Inr ())"
  by (simp add: TimeCache_log_defs split del: if_split)

text \<open>
  \<^bold>\<open>C5.\<close> A second \<^verbatim>\<open>log()\<close> with no \<^verbatim>\<open>add()\<close> in between emits nothing: whenever a
  \<^verbatim>\<open>log()\<close> has returned, the next \<^verbatim>\<open>log()\<close> on the object it left writes no line and
  leaves the object as it is. (The archive then holds its anchor only, the loop body
  just runs \<^verbatim>\<open>continue\<close>, and the call ends at the final write with
  \<^verbatim>\<open>UnboundLocalError\<close>, \<^verbatim>\<open>this_ts\<close> being unassigned.)
\<close>

theorem second_log_emits_nothing:
  assumes "TimeCache_log st = (st1, out1, Inr ())"
  shows "TimeCache_log st1 = (st1, [], Inl UnboundLocalError)"
  using assms
  by (auto simp: TimeCache_log_def split: list.splits prod.splits option.splits)

theorem second_log_emits_nothing_witness:
  "TimeCache_log
     \<lparr>archive = [(800, None), (801, Some 0.15)], last_spread = Some 0.20,
       tmp_cache = [(801.5, 0.10)]\<rparr> =
     (\<lparr>archive = [(801, Some 0.15)], last_spread = Some 0.20, tmp_cache = [(801.5, 0.10)]\<rparr>,
      [''801000000,0.15000000'' @ [CHR 0x0A]], Inr ())
   \<and> TimeCache_log
       \<lparr>archive = [(801, Some 0.15)], last_spread = Some 0.20, tmp_cache = [(801.5, 0.10)]\<rparr> =
     (\<lparr>archive = [(801, Some 0.15)], last_spread = Some 0.20, tmp_cache = [(801.5, 0.10)]\<rparr>,
      [], Inl UnboundLocalError)"
  by (rule conjI [OF log_801 second_log_emits_nothing [OF log_801]])

section \<open>TimeCache: the first archive entry\<close>

lemma update_archive_archive:
  "archive (fst (update_archive st ts spread)) = archive st \<or>
   (\<exists>f twa. archive (fst (update_archive st ts spread)) = archive st @ [(f, Some twa)])"
  by (auto simp: update_archive_def Let_def split: sum.splits prod.splits list.splits)

lemma cold_cache_archive:
  "cold_cache st ts spread = (st1, r) \<Longrightarrow>
     (archive st = [] \<and> r = Some 1 \<and> (\<exists>f. archive st1 = [(f, None)])) \<or>
     (r \<noteq> Some 1 \<and> archive st1 = archive st)"
  by (auto simp: cold_cache_def Let_def split: if_splits)

text \<open>\<^verbatim>\<open>add\<close> leaves the archive alone, or seeds an empty archive with one entry without
  average, or appends one entry with an average to a non-empty archive.\<close>

lemma add_floats_archive:
  "archive (fst (add_floats st ts spread)) = archive st \<or>
   (archive st = [] \<and> (\<exists>f. archive (fst (add_floats st ts spread)) = [(f, None)])) \<or>
   (archive st \<noteq> [] \<and>
      (\<exists>f twa. archive (fst (add_floats st ts spread)) = archive st @ [(f, Some twa)]))"
proof -
  obtain st1 r where cc: "cold_cache st ts spread = (st1, r)"
    by (cases "cold_cache st ts spread") auto
  show ?thesis
  proof (cases "r = Some 1")
    case True
    with cc cold_cache_archive [OF cc] show ?thesis
      by (auto simp: add_floats_def)
  next
    case False
    with cold_cache_archive [OF cc] have same: "archive st1 = archive st" by auto
    show ?thesis
    proof (cases "archive st")
      case Nil
      with cc False same show ?thesis
        by (simp add: add_floats_def get_last_archive_ts_def)
    next
      case (Cons a as)
      with cc False same update_archive_archive [of st1 ts spread] show ?thesis
        by (auto simp: add_floats_def get_last_archive_ts_def Let_def
              split: prod.splits sum.splits)
    qed
  qed
qed

lemma TimeCache_add_archive:
  "archive (fst (TimeCache_add st ts spread)) = archive st \<or>
   (archive st = [] \<and> (\<exists>f. archive (fst (TimeCache_add st ts spread)) = [(f, None)])) \<or>
   (archive st \<noteq> [] \<and>
      (\<exists>f twa. archive (fst (TimeCache_add st ts spread)) = archive st @ [(f, Some twa)]))"
  using add_floats_archive
  by (cases ts; cases spread) (simp_all add: TimeCache_add_def)

lemma archive_inv_step: "archive_inv p \<Longrightarrow> archive_inv (step p c)"
proof (cases p)
  case (Pair st anchor)
  assume inv: "archive_inv p"
  show ?thesis
  proof (cases c)
    case (Add ts spread)
    with Pair inv TimeCache_add_archive [of st ts spread] show ?thesis
      by (auto simp: archive_inv_def split: option.splits)
  next
    case Log
    obtain st1 out r where lg: "TimeCache_log st = (st1, out, r)"
      by (cases "TimeCache_log st") auto
    show ?thesis
    proof (cases r)
      case (Inl e)
      with lg TimeCache_log_failed [of st st1 out e] Pair Log inv show ?thesis
        by simp
    next
      case (Inr u)
      with lg TimeCache_log_returned [of st st1 out u] Pair Log inv show ?thesis
        by (auto simp: archive_inv_def split: option.splits)
    qed
  qed
qed

lemma archive_inv_run: "archive_inv (run calls)"
proof (induction calls rule: rev_induct)
  case Nil
  show ?case by (simp add: run_def archive_inv_def TimeCache_init_def)
next
  case (snoc c calls)
  have "run (calls @ [c]) = step (run calls) c" by (simp add: run_def)
  with snoc archive_inv_step show ?case by simp
qed

text \<open>A cache reached by calls is cold (empty \<^verbatim>\<open>tmp_cache\<close>) exactly when its archive is
  empty.\<close>

lemma update_archive_shape:
  "tmp_cache st \<noteq> [] \<Longrightarrow> update_archive st ts spread = (st1, r) \<Longrightarrow>
     st1 = st \<or> (archive st1 \<noteq> [] \<and> tmp_cache st1 \<noteq> [])"
  by (auto simp: update_archive_def Let_def split: sum.splits prod.splits list.splits)

lemma add_floats_shape:
  assumes "(tmp_cache st = []) = (archive st = [])"
  shows "(tmp_cache (fst (add_floats st ts spread)) = []) = (archive (fst (add_floats st ts spread)) = [])"
proof (cases "tmp_cache st = []")
  case True
  with assms show ?thesis
    by (simp add: add_floats_def cold_cache_def)
next
  case False
  with assms have ne: "archive st \<noteq> []" by simp
  obtain st1 r where ua: "update_archive st ts spread = (st1, r)"
    by (cases "update_archive st ts spread") auto
  from update_archive_shape [OF False ua] False ne ua show ?thesis
    by (auto simp: add_floats_def cold_cache_def get_last_archive_ts_def Let_def
          split: list.splits sum.splits)
qed

lemma TimeCache_add_shape:
  "(tmp_cache st = []) = (archive st = []) \<Longrightarrow>
   (tmp_cache (fst (TimeCache_add st ts spread)) = []) = (archive (fst (TimeCache_add st ts spread)) = [])"
  using add_floats_shape
  by (cases ts; cases spread) (simp_all add: TimeCache_add_def)

lemma TimeCache_log_tmp_cache:
  "TimeCache_log st = (st1, out, r) \<Longrightarrow> tmp_cache st1 = tmp_cache st"
  by (auto simp: TimeCache_log_def split: list.splits prod.splits option.splits)

lemma step_shape:
  assumes "(tmp_cache (fst p) = []) = (archive (fst p) = [])"
  shows "(tmp_cache (fst (step p c)) = []) = (archive (fst (step p c)) = [])"
proof (cases p)
  case (Pair st anchor)
  show ?thesis
  proof (cases c)
    case (Add ts spread)
    with Pair assms TimeCache_add_shape [of st ts spread] show ?thesis by simp
  next
    case Log
    obtain st1 out r where lg: "TimeCache_log st = (st1, out, r)"
      by (cases "TimeCache_log st") auto
    show ?thesis
    proof (cases r)
      case (Inl e)
      with lg TimeCache_log_failed [of st st1 out e] Pair Log assms show ?thesis
        by simp
    next
      case (Inr u)
      with lg TimeCache_log_returned [of st st1 out u] TimeCache_log_tmp_cache [OF lg]
        Pair Log assms show ?thesis
        by auto
    qed
  qed
qed

lemma run_cold_iff:
  "(tmp_cache (fst (run calls)) = []) = (archive (fst (run calls)) = [])"
proof (induction calls rule: rev_induct)
  case Nil
  show ?case by (simp add: run_def TimeCache_init_def)
next
  case (snoc c calls)
  have "run (calls @ [c]) = step (run calls) c" by (simp add: run_def)
  with step_shape [OF snoc] show ?case by simp
qed

lemma run_add_800_2:
  "run [Add (PyFloat 800.2) (PyFloat 0.10)] =
     (\<lparr>archive = [(800, None)], last_spread = None, tmp_cache = [(800.2, 0.10)]\<rparr>, None)"
  by (simp only: run_def foldl.simps step.simps add_800_2 fst_conv)

lemma run_add_add_add_log:
  "run [Add (PyFloat 800.2) (PyFloat 0.10), Add (PyFloat 800.6) (PyFloat 0.20),
        Add (PyFloat 801.5) (PyFloat 0.10), Log] =
     (\<lparr>archive = [(801, Some 0.15)], last_spread = Some 0.20, tmp_cache = [(801.5, 0.10)]\<rparr>,
      Some (801, Some 0.15))"
  by (simp only: run_def foldl.simps step.simps add_800_2 add_800_6 add_801_5 log_801
        fst_conv prod.case sum.case TimeCache.simps last.simps list.simps simp_thms if_True if_False)

text \<open>
  \<^bold>\<open>C3.\<close> As stated (in every reachable cache with a non-empty archive the first
  entry has no average) the claim fails once \<^verbatim>\<open>log()\<close> has truncated the archive to its
  last entry: after three \<^verbatim>\<open>add\<close> calls and one \<^verbatim>\<open>log()\<close> the archive is
  \<open>[(801, 0.15)]\<close>.
\<close>

theorem first_entry_average_counterexample:
  "archive (fst (run [Add (PyFloat 800.2) (PyFloat 0.10), Add (PyFloat 800.6) (PyFloat 0.20),
                      Add (PyFloat 801.5) (PyFloat 0.10), Log])) \<noteq> []
   \<and> snd (hd (archive (fst (run [Add (PyFloat 800.2) (PyFloat 0.10),
                                   Add (PyFloat 800.6) (PyFloat 0.20),
                                   Add (PyFloat 801.5) (PyFloat 0.10), Log])))) \<noteq> None"
  unfolding run_add_add_add_log by simp

text \<open>
  \<^bold>\<open>C3, amended.\<close> For every cache reached from \<^verbatim>\<open>TimeCache()\<close> by \<^verbatim>\<open>add\<close> and \<^verbatim>\<open>log\<close>
  calls (with any arguments, failed calls included) whose archive is non-empty: while
  no \<^verbatim>\<open>log()\<close> has returned, the first entry has no average; once a \<^verbatim>\<open>log()\<close> has
  returned, the first entry is the last entry that the archive held when the most
  recent returned \<^verbatim>\<open>log()\<close> was called, and it has an average.
\<close>

theorem first_entry_none_until_log_then_anchor:
  assumes "run calls = (st, anchor)" and "archive st \<noteq> []"
  shows "case anchor of
           None \<Rightarrow> snd (hd (archive st)) = None
         | Some a \<Rightarrow> hd (archive st) = a \<and> snd a \<noteq> None"
  using archive_inv_run [of calls] assms by (auto simp: archive_inv_def split: option.splits)

theorem first_entry_none_until_log_then_anchor_witness:
  "run [Add (PyFloat 800.2) (PyFloat 0.10)] =
     (\<lparr>archive = [(800, None)], last_spread = None, tmp_cache = [(800.2, 0.10)]\<rparr>, None)
   \<and> snd (hd (archive
        \<lparr>archive = [(800, None)], last_spread = None, tmp_cache = [(800.2, 0.10)]\<rparr>)) = None
   \<and> run [Add (PyFloat 800.2) (PyFloat 0.10), Add (PyFloat 800.6) (PyFloat 0.20),
           Add (PyFloat 801.5) (PyFloat 0.10), Log] =
     (\<lparr>archive = [(801, Some 0.15)], last_spread = Some 0.20, tmp_cache = [(801.5, 0.10)]\<rparr>,
      Some (801, Some 0.15))
   \<and> hd (archive
        \<lparr>archive = [(801, Some 0.15)], last_spread = Some 0.20, tmp_cache = [(801.5, 0.10)]\<rparr>)
       = (801, Some 0.15)"
proof -
  let ?cold = "\<lparr>archive = [(800, None)], last_spread = None, tmp_cache = [(800.2, 0.10)]\<rparr>"
  let ?logged =
    "\<lparr>archive = [(801, Some 0.15)], last_spread = Some 0.20, tmp_cache = [(801.5, 0.10)]\<rparr>"
  have c: "archive ?cold \<noteq> []" by simp
  have l: "archive ?logged \<noteq> []" by simp
  have none: "snd (hd (archive ?cold)) = None"
    using first_entry_none_until_log_then_anchor [OF run_add_800_2 c] by simp
  have kept: "hd (archive ?logged) = (801, Some 0.15)"
    using first_entry_none_until_log_then_anchor [OF run_add_add_add_log l] by simp
  show ?thesis
    by (rule conjI [OF run_add_800_2 conjI [OF none conjI [OF run_add_add_add_log kept]]])
qed

section \<open>The scenario of \<^verbatim>\<open>test_add_and_log\<close>\<close>

text \<open>The loop, one bid/ask pair at a time.\<close>

lemma loop_800_2:
  "test_add_and_log_loop (QuotePair_init, TimeCache_init)
     ((800.2, '':b'', 1.50) # (800.2, '':a'', 1.60) # data) =
   test_add_and_log_loop
     (\<lparr>current_ts = Some 800.2, ask = Some 1.60, bid = Some 1.50\<rparr>,
      \<lparr>archive = [(800, None)], last_spread = None, tmp_cache = [(800.2, 0.10)]\<rparr>) data"
  by (simp add: QuotePair_init_def TimeCache_init_def QuotePair_defs TimeCache_add_defs
        split del: if_split)

lemma loop_800_6:
  "test_add_and_log_loop
     (\<lparr>current_ts = Some 800.2, ask = Some 1.60, bid = Some 1.50\<rparr>,
      \<lparr>archive = [(800, None)], last_spread = None, tmp_cache = [(800.2, 0.10)]\<rparr>)
     ((800.6, '':b'', 1.75) # (800.6, '':a'', 1.95) # data) =
   test_add_and_log_loop
     (\<lparr>current_ts = Some 800.6, ask = Some 1.95, bid = Some 1.75\<rparr>,
      \<lparr>archive = [(800, None)], last_spread = None,
       tmp_cache = [(800.2, 0.10), (800.6, 0.20)]\<rparr>) data"
  by (simp add: QuotePair_defs TimeCache_add_defs split del: if_split)

lemma loop_801_5:
  "test_add_and_log_loop
     (\<lparr>current_ts = Some 800.6, ask = Some 1.95, bid = Some 1.75\<rparr>,
      \<lparr>archive = [(800, None)], last_spread = None,
       tmp_cache = [(800.2, 0.10), (800.6, 0.20)]\<rparr>)
     ((801.5, '':b'', 1.80) # (801.5, '':a'', 1.90) # data) =
   test_add_and_log_loop
     (\<lparr>current_ts = Some 801.5, ask = Some 1.90, bid = Some 1.80\<rparr>,
      \<lparr>archive = [(800, None), (801, Some 0.15)], last_spread = Some 0.20,
       tmp_cache = [(801.5, 0.10)]\<rparr>) data"
  by (simp add: QuotePair_defs TimeCache_add_defs split del: if_split)

lemma loop_803_3:
  "test_add_and_log_loop
     (\<lparr>current_ts = Some 801.5, ask = Some 1.90, bid = Some 1.80\<rparr>,
      \<lparr>archive = [(800, None), (801, Some 0.15)], last_spread = Some 0.20,
       tmp_cache = [(801.5, 0.10)]\<rparr>)
     ((803.3, '':b'', 1.13) # (803.3, '':a'', 1.28) # data) =
   test_add_and_log_loop
     (\<lparr>current_ts = Some 803.3, ask = Some 1.28, bid = Some 1.13\<rparr>,
      \<lparr>archive = [(800, None), (801, Some 0.15), (803, Some 0.15)], last_spread = Some 0.10,
       tmp_cache = [(803.3, 0.15)]\<rparr>) data"
  by (simp add: QuotePair_defs TimeCache_add_defs split del: if_split)

lemma loop_804_2:
  "test_add_and_log_loop
     (\<lparr>current_ts = Some 803.3, ask = Some 1.28, bid = Some 1.13\<rparr>,
      \<lparr>archive = [(800, None), (801, Some 0.15), (803, Some 0.15)], last_spread = Some 0.10,
       tmp_cache = [(803.3, 0.15)]\<rparr>)
     ((804.2, '':b'', 1.01) # (804.2, '':a'', 1.11) # data) =
   test_add_and_log_loop
     (\<lparr>current_ts = Some 804.2, ask = Some 1.11, bid = Some 1.01\<rparr>,
      \<lparr>archive = [(800, None), (801, Some 0.15), (803, Some 0.15), (804, Some 0.135)],
       last_spread = Some 0.15, tmp_cache = [(804.2, 0.10)]\<rparr>) data"
  by (simp add: QuotePair_defs TimeCache_add_defs split del: if_split)

lemma test_loop_result:
  "test_add_and_log_loop (QuotePair_init, TimeCache_init) test_data =
     ((\<lparr>current_ts = Some 804.2, ask = Some 1.11, bid = Some 1.01\<rparr>,
       \<lparr>archive = [(800, None), (801, Some 0.15), (803, Some 0.15), (804, Some 0.135)],
        last_spread = Some 0.15, tmp_cache = [(804.2, 0.10)]\<rparr>), Inr ())"
  unfolding test_data_def
  by (simp only: loop_800_2 loop_800_6 loop_801_5 loop_803_3 loop_804_2
        test_add_and_log_loop.simps(1))

lemma log_804:
  "TimeCache_log
     \<lparr>archive = [(800, None), (801, Some 0.15), (803, Some 0.15), (804, Some 0.135)],
       last_spread = Some 0.15, tmp_cache = [(804.2, 0.10)]\<rparr> =
     (\<lparr>archive = [(804, Some 0.135)], last_spread = Some 0.15, tmp_cache = [(804.2, 0.10)]\<rparr>,
      [''801000000,0.15000000'' @ [CHR 0x0A],
       ''802000000,0.15000000'' @ [CHR 0x0A],
       ''803000000,0.15000000'' @ [CHR 0x0A],
       ''804000000,0.13500000'' @ [CHR 0x0A]], Inr ())"
  by (simp add: TimeCache_log_defs split del: if_split)

text \<open>
  \<^bold>\<open>C2.\<close> The bid/ask pairs of \<^verbatim>\<open>test_add_and_log\<close> (timestamps 800.2, 800.6, 801.5,
  803.3, 804.2; spreads 0.10, 0.20, 0.10, 0.15, 0.10) run through \<^verbatim>\<open>QuotePair.add\<close> and
  \<^verbatim>\<open>TimeCache.add\<close> without an exception and leave the archive
  \<open>[(800, None), (801, 0.15), (803, 0.15), (804, 0.135)]\<close>. Then \<^verbatim>\<open>log()\<close> writes
  exactly four lines, in this order: second 801 with 0.15000000, the gap second 802
  with the same 0.15000000, second 803 with 0.15000000 and second 804 with 0.13500000,
  which is \<open>0.10 * 0.3 + 0.15 * 0.7\<close>; timestamps are printed in microseconds.
\<close>

theorem end_to_end_emitted_records:
  "test_add_and_log_loop (QuotePair_init, TimeCache_init) test_data =
     ((\<lparr>current_ts = Some 804.2, ask = Some 1.11, bid = Some 1.01\<rparr>,
       \<lparr>archive = [(800, None), (801, Some 0.15), (803, Some 0.15), (804, Some 0.135)],
        last_spread = Some 0.15, tmp_cache = [(804.2, 0.10)]\<rparr>), Inr ())
   \<and> TimeCache_log
       \<lparr>archive = [(800, None), (801, Some 0.15), (803, Some 0.15), (804, Some 0.135)],
         last_spread = Some 0.15, tmp_cache = [(804.2, 0.10)]\<rparr> =
     (\<lparr>archive = [(804, Some 0.135)], last_spread = Some 0.15, tmp_cache = [(804.2, 0.10)]\<rparr>,
      [''801000000,0.15000000'' @ [CHR 0x0A],
       ''802000000,0.15000000'' @ [CHR 0x0A],
       ''803000000,0.15000000'' @ [CHR 0x0A],
       ''804000000,0.13500000'' @ [CHR 0x0A]], Inr ())
   \<and> (0.135 :: rat) = 0.10 * 0.3 + 0.15 * 0.7"
proof -
  have "(0.135 :: rat) = 0.10 * 0.3 + 0.15 * 0.7" by simp
  then show ?thesis
    by (rule conjI [OF test_loop_result conjI [OF log_804]])
qed

end
